theory Spec2Isabelle
  imports Main "HOL-Library.Word"
begin

section \<open>TinySeed: the data of \<^verbatim>\<open>main.go\<close>\<close>

text \<open>
  \<^verbatim>\<open>main.go\<close> is a wrapper: it builds a configuration, constructs the address book, the
  PEX reactor and the switch of the p2p library, registers a shutdown handler and starts the
  switch. The model follows the file statement by statement. Every call that leaves the file
  is recorded as an \<^emph>\<open>event\<close> with the arguments it receives, in program order; a
  \<^verbatim>\<open>panic(err)\<close> is the result \<open>Inl err\<close>. What the operating system and the imported
  packages answer is a parameter of the model (the record \<open>Lib\<close>), not an assumption.
\<close>

text \<open>A Go \<^verbatim>\<open>error\<close> value, identified by its message.\<close>

datatype error = Error string

text \<open>
  The struct \<^verbatim>\<open>Config\<close>. Go's \<^verbatim>\<open>int\<close> is 32 or 64 bits wide by platform; the program
  only copies these values and never computes with them, so they are \<open>int\<close>.
\<close>

record Config =
  ListenAddress :: string
  ChainID :: string
  NodeKeyFile :: string
  AddrBookFile :: string
  AddrBookStrict :: bool
  MaxNumInboundPeers :: int
  MaxNumOutboundPeers :: int
  Seeds :: string

text \<open>
  \<^verbatim>\<open>config.P2PConfig\<close> of the p2p library: the three fields \<^verbatim>\<open>Start\<close> assigns. Its
  other fields stay as \<^verbatim>\<open>DefaultP2PConfig()\<close> returns them; \<^verbatim>\<open>Start\<close> neither reads nor
  writes them, and the record leaves them out.
\<close>

record P2PConfig =
  AllowDuplicateIP :: bool
  MaxNumInboundPeers :: int
  MaxNumOutboundPeers :: int

text \<open>The node key and the identity derived from it (\<^verbatim>\<open>p2p.ID\<close> is a string type).\<close>

datatype NodeKey = NodeKey string

type_synonym ID = string

text \<open>A parsed \<^verbatim>\<open>p2p.NetAddress\<close>.\<close>

datatype NetAddress = NetAddress string

text \<open>\<^verbatim>\<open>p2p.ProtocolVersion\<close>; its fields are \<^verbatim>\<open>uint64\<close>.\<close>

record ProtocolVersion =
  P2P :: "64 word"
  Block :: "64 word"
  App :: "64 word"

text \<open>\<^verbatim>\<open>p2p.DefaultNodeInfo\<close>, the fields the composite literal of \<^verbatim>\<open>Start\<close> sets.\<close>

record DefaultNodeInfo =
  ProtocolVersion :: ProtocolVersion
  DefaultNodeID :: ID
  ListenAddr :: string
  Network :: string
  Version :: string
  Channels :: "8 word list"
  Moniker :: string

text \<open>\<^verbatim>\<open>pex.ReactorConfig\<close>, the fields the composite literal of \<^verbatim>\<open>Start\<close> sets.\<close>

record ReactorConfig =
  SeedMode :: bool
  Seeds :: "string list"

text \<open>The state of the address-book file on disk.\<close>

datatype BookFile = Absent | Corrupt | Valid "string list"

text \<open>
  The address book \<^verbatim>\<open>pex.NewAddrBook\<close> returns: its file, its routability mode and the
  addresses it holds.
\<close>

record AddrBook =
  filePath :: string
  routabilityStrict :: bool
  addrs :: "string list"

text \<open>A value passed to the logger as a key's value.\<close>

datatype logval = LStr string | LBool bool | LInt int

text \<open>
  The answers of everything outside \<^verbatim>\<open>main.go\<close>: the operating system, the standard
  library and the imported packages. A fallible call answers \<open>Inl err\<close> or \<open>Some err\<close>
  when it returns a non-nil error.
\<close>

record Lib =
  Getenv :: "string \<Rightarrow> string"
  homedir_Dir :: "error + string"
  Join :: "string \<Rightarrow> string \<Rightarrow> string"
  Dir :: "string \<Rightarrow> string"
  MkdirAll :: "string \<Rightarrow> error option"
  DefaultP2PConfig :: P2PConfig
  LoadOrGenNodeKey :: "string \<Rightarrow> error + NodeKey"
  NodeKey_ID :: "NodeKey \<Rightarrow> ID"
  P2PProtocol :: "64 word"
  BlockProtocol :: "64 word"
  PexChannel :: "8 word"
  IDAddressString :: "ID \<Rightarrow> string \<Rightarrow> string"
  NewNetAddressString :: "string \<Rightarrow> error + NetAddress"
  Listen :: "NetAddress \<Rightarrow> error option"
  ReadFile :: "string \<Rightarrow> BookFile"
  SplitAndTrim :: "string \<Rightarrow> string \<Rightarrow> string \<Rightarrow> string list"
  Switch_Start :: "error option"
  Switch_Stop :: "error option"

text \<open>
  The calls that leave \<^verbatim>\<open>main.go\<close> and act on the outside world or on an object of the
  library, each with its arguments. \<open>EvStart\<close> marks the entry of \<^verbatim>\<open>Start\<close> with the
  configuration it was called with. The third argument of \<open>EvNewMultiplexTransport\<close> is
  the p2p configuration whose \<^verbatim>\<open>MConnConfig\<close> the transport receives. Reads without an
  effect (\<^verbatim>\<open>os.Getenv\<close>, \<^verbatim>\<open>homedir.Dir\<close>, \<^verbatim>\<open>filepath.Join\<close>, \<^verbatim>\<open>filepath.Dir\<close>,
  \<^verbatim>\<open>nodeKey.ID\<close>) are answered by \<open>Lib\<close> and leave no event.
\<close>

datatype event =
    EvStart Config
  | EvMkdirAll string
  | EvLoadOrGenNodeKey string
  | EvLogInfo string "(string \<times> logval) list"
  | EvNewNetAddressString string
  | EvNewMultiplexTransport DefaultNodeInfo NodeKey P2PConfig
  | EvListen NetAddress
  | EvNewAddrBook string bool
  | EvBookSetLogger string
  | EvNewReactor AddrBook ReactorConfig
  | EvReactorSetLogger string
  | EvNewSwitch P2PConfig
  | EvSwSetLogger string
  | EvSwSetNodeKey NodeKey
  | EvSwSetAddrBook AddrBook
  | EvSwAddReactor string
  | EvSwSetNodeInfo DefaultNodeInfo
  | EvTrapSignal
  | EvSwStart
  | EvSwWait
  | EvBookSave AddrBook
  | EvSwStop

section \<open>Runs: a trace of events and a result or a panic\<close>

type_synonym 'a run = "event list \<times> (error + 'a)"

definition ret :: "'a \<Rightarrow> 'a run" where
  "ret x = ([], Inr x)"

definition emit :: "event \<Rightarrow> unit run" where
  "emit e = ([e], Inr ())"

definition panic :: "error \<Rightarrow> 'a run" where
  "panic err = ([], Inl err)"

text \<open>Sequencing: a panic ends the run; the events before it stay in the trace.\<close>

definition bind :: "'a run \<Rightarrow> ('a \<Rightarrow> 'b run) \<Rightarrow> 'b run" where
  "bind m f =
     (case snd m of
        Inl err \<Rightarrow> (fst m, Inl err)
      | Inr x \<Rightarrow> (fst m @ fst (f x), snd (f x)))"

text \<open>\<^verbatim>\<open>v, err := f(...); if err != nil { panic(err) }\<close>\<close>

definition call_or_panic :: "event \<Rightarrow> error + 'a \<Rightarrow> 'a run" where
  "call_or_panic e r = bind (emit e) (\<lambda>_. case r of Inl err \<Rightarrow> panic err | Inr v \<Rightarrow> ret v)"

text \<open>\<^verbatim>\<open>if err := f(...); err != nil { panic(err) }\<close>\<close>

definition do_or_panic :: "event \<Rightarrow> error option \<Rightarrow> unit run" where
  "do_or_panic e r = bind (emit e) (\<lambda>_. case r of Some err \<Rightarrow> panic err | None \<Rightarrow> ret ())"

definition trace :: "'a run \<Rightarrow> event list" where
  "trace m = fst m"

definition panics :: "'a run \<Rightarrow> bool" where
  "panics m = isl (snd m)"

section \<open>The functions of \<^verbatim>\<open>main.go\<close>\<close>

definition DefaultConfig :: "Lib \<Rightarrow> string \<Rightarrow> Config" where
  "DefaultConfig lib homeDir =
     \<lparr> ListenAddress = ''tcp://0.0.0.0:36656'',
       ChainID = ''columbus-5'',
       NodeKeyFile = Join lib homeDir ''config/node_key.json'',
       AddrBookFile = Join lib homeDir ''data/addrbook.json'',
       AddrBookStrict = True,
       MaxNumInboundPeers = 1000,
       MaxNumOutboundPeers = 1000,
       Seeds = ''e999fc20aa5b87c1acef8677cf495ad85061cfb9@seed.terra.delightlabs.io:26656,6d8e943c049a80c161a889cb5fcf3d184215023e@public-seed2.terra.dev:26656,87048bf71526fb92d73733ba3ddb79b7a83ca11e@public-seed.terra.dev:26656'' \<rparr>"

definition MkdirAllPanic :: "Lib \<Rightarrow> string \<Rightarrow> unit run" where
  "MkdirAllPanic lib path = do_or_panic (EvMkdirAll path) (MkdirAll lib path)"

text \<open>Consecutive calls that cannot fail, in program order.\<close>

definition emits :: "event list \<Rightarrow> unit run" where
  "emits es = (es, Inr ())"

text \<open>
  Modelled from the spec: the address book of the pex package (\<^verbatim>\<open>pex.NewAddrBook\<close> and
  its loading of the persisted file) is not under src/. The spec: "\<^verbatim>\<open>Load()\<close> on
  startup is best-effort: a missing or corrupt file results in an empty book, not a fatal
  error", and the routability mode is "configured at construction and immutable
  thereafter".
\<close>

definition Load :: "BookFile \<Rightarrow> string list" where
  "Load f = (case f of Absent \<Rightarrow> [] | Corrupt \<Rightarrow> [] | Valid as \<Rightarrow> as)"

text \<open>
  Modelled from the spec: \<^verbatim>\<open>pex.NewAddrBook(filePath, routabilityStrict)\<close> is not under
  src/. The book keeps its file and its routability mode and starts from what \<open>Load\<close>
  finds in the file.
\<close>

definition NewAddrBook :: "Lib \<Rightarrow> string \<Rightarrow> bool \<Rightarrow> AddrBook" where
  "NewAddrBook lib path strict =
     \<lparr> filePath = path, routabilityStrict = strict, addrs = Load (ReadFile lib path) \<rparr>"

text \<open>
  The closure \<^verbatim>\<open>Start\<close> hands to \<^verbatim>\<open>tmos.TrapSignal\<close>; it captures the logger, the
  book and the switch. \<^verbatim>\<open>TrapSignal\<close> runs it when the stop signal arrives.
\<close>

definition shutdown_handler :: "Lib \<Rightarrow> AddrBook \<Rightarrow> unit run" where
  "shutdown_handler lib book =
     bind (emit (EvLogInfo ''shutting down...'' [])) (\<lambda>_.
     bind (emit (EvBookSave book)) (\<lambda>_.
     do_or_panic EvSwStop (Switch_Stop lib)))"

text \<open>What is live once \<^verbatim>\<open>Start\<close> has reached \<^verbatim>\<open>sw.Wait()\<close>.\<close>

record Node =
  sw_config :: P2PConfig
  sw_nodeInfo :: DefaultNodeInfo
  sw_nodeKey :: NodeKey
  sw_book :: AddrBook
  pex_config :: ReactorConfig
  listen_addr :: NetAddress
  on_signal :: "unit run"

text \<open>
  \<^verbatim>\<open>Start\<close>. The variable \<^verbatim>\<open>cfg\<close> is a pointer; its last assignment is before its
  first use, so every later reader sees the value bound here. The loggers are values built
  without a call that can fail; the calls that install them are events.
\<close>

definition Start :: "Lib \<Rightarrow> Config \<Rightarrow> Node run" where
  "Start lib SeedConfig =
     bind (emit (EvStart SeedConfig)) (\<lambda>_.
     let chainID = ChainID SeedConfig;
         nodeKeyFilePath = NodeKeyFile SeedConfig;
         addrBookFilePath = AddrBookFile SeedConfig in
     bind (MkdirAllPanic lib (Dir lib nodeKeyFilePath)) (\<lambda>_.
     bind (MkdirAllPanic lib (Dir lib addrBookFilePath)) (\<lambda>_.
     let cfg = DefaultP2PConfig lib;
         cfg = cfg\<lparr>AllowDuplicateIP := True\<rparr>;
         cfg = cfg\<lparr>MaxNumInboundPeers := Config.MaxNumInboundPeers SeedConfig\<rparr>;
         cfg = cfg\<lparr>MaxNumOutboundPeers := Config.MaxNumOutboundPeers SeedConfig\<rparr> in
     bind (call_or_panic (EvLoadOrGenNodeKey nodeKeyFilePath)
             (LoadOrGenNodeKey lib nodeKeyFilePath)) (\<lambda>nodeKey.
     bind (emit (EvLogInfo ''tenderseed''
             [(''key'', LStr (NodeKey_ID lib nodeKey)),
              (''key path'', LStr nodeKeyFilePath),
              (''address book path'', LStr addrBookFilePath),
              (''listen'', LStr (ListenAddress SeedConfig)),
              (''chain'', LStr chainID),
              (''strict-routing'', LBool (AddrBookStrict SeedConfig)),
              (''max-inbound'', LInt (Config.MaxNumInboundPeers SeedConfig)),
              (''max-outbound'', LInt (Config.MaxNumOutboundPeers SeedConfig))])) (\<lambda>_.
     let protocolVersion =
           \<lparr> P2P = P2PProtocol lib, Block = BlockProtocol lib, App = 0 \<rparr>;
         nodeInfo =
           \<lparr> ProtocolVersion = protocolVersion,
             DefaultNodeID = NodeKey_ID lib nodeKey,
             ListenAddr = ListenAddress SeedConfig,
             Network = chainID,
             Version = ''0.5.9'',
             Channels = [PexChannel lib],
             Moniker = chainID @ ''-seed'' \<rparr>;
         idAddr = IDAddressString lib (DefaultNodeID nodeInfo) (ListenAddr nodeInfo) in
     bind (call_or_panic (EvNewNetAddressString idAddr)
             (NewNetAddressString lib idAddr)) (\<lambda>addr.
     bind (emit (EvNewMultiplexTransport nodeInfo nodeKey cfg)) (\<lambda>_.
     bind (do_or_panic (EvListen addr) (Listen lib addr)) (\<lambda>_.
     bind (emit (EvNewAddrBook addrBookFilePath (AddrBookStrict SeedConfig))) (\<lambda>_.
     let book = NewAddrBook lib addrBookFilePath (AddrBookStrict SeedConfig);
         pexConfig =
           \<lparr> SeedMode = True,
             Seeds = SplitAndTrim lib (Config.Seeds SeedConfig) '','' '' '' \<rparr> in
     bind (emits
             [EvBookSetLogger ''book'',
              EvNewReactor book pexConfig,
              EvReactorSetLogger ''pex'',
              EvNewSwitch cfg,
              EvSwSetLogger ''switch'',
              EvSwSetNodeKey nodeKey,
              EvSwSetAddrBook book,
              EvSwAddReactor ''pex'',
              EvSwSetNodeInfo nodeInfo,
              EvTrapSignal]) (\<lambda>_.
     bind (do_or_panic EvSwStart (Switch_Start lib)) (\<lambda>_.
     bind (emit EvSwWait) (\<lambda>_.
     ret \<lparr> sw_config = cfg,
           sw_nodeInfo = nodeInfo,
           sw_nodeKey = nodeKey,
           sw_book = book,
           pex_config = pexConfig,
           listen_addr = addr,
           on_signal = shutdown_handler lib book \<rparr>))))))))))))"

text \<open>
  \<^verbatim>\<open>main\<close>. \<^verbatim>\<open>os.Getenv\<close> answers the empty string for a variable that is not set.
\<close>

definition main :: "Lib \<Rightarrow> Node run" where
  "main lib =
     (let idOverride = Getenv lib ''ID'';
          seedOverride = Getenv lib ''SEEDS'';
          listenAddressOverride = Getenv lib ''LISTENADDRESS'' in
      case homedir_Dir lib of
        Inl err \<Rightarrow> panic err
      | Inr userHomeDir \<Rightarrow>
          let homeDir = Join lib userHomeDir ''.tinyseed'';
              configFile = ''config/config.toml'';
              configFilePath = Join lib homeDir configFile in
          bind (MkdirAllPanic lib (Dir lib configFilePath)) (\<lambda>_.
          let SeedConfig = DefaultConfig lib homeDir;
              SeedConfig = (if idOverride \<noteq> [] then SeedConfig\<lparr>ChainID := idOverride\<rparr>
                            else SeedConfig);
              SeedConfig = (if seedOverride \<noteq> []
                            then SeedConfig\<lparr>Config.Seeds := seedOverride\<rparr>
                            else SeedConfig);
              SeedConfig = (if listenAddressOverride \<noteq> []
                            then SeedConfig\<lparr>ListenAddress := listenAddressOverride\<rparr>
                            else SeedConfig) in
          Start lib SeedConfig))"

section \<open>Reading traces\<close>

text \<open>The address books an event carries.\<close>

fun books_of :: "event \<Rightarrow> AddrBook list" where
  "books_of (EvNewReactor b rc) = [b]"
| "books_of (EvSwSetAddrBook b) = [b]"
| "books_of (EvBookSave b) = [b]"
| "books_of e = []"

fun is_NewAddrBook :: "event \<Rightarrow> bool" where
  "is_NewAddrBook (EvNewAddrBook p s) = True"
| "is_NewAddrBook e = False"

fun is_BookSave :: "event \<Rightarrow> bool" where
  "is_BookSave (EvBookSave b) = True"
| "is_BookSave e = False"

fun is_SwStop :: "event \<Rightarrow> bool" where
  "is_SwStop EvSwStop = True"
| "is_SwStop e = False"

text \<open>Some event satisfying \<open>p\<close> is followed, later in the trace, by one satisfying \<open>q\<close>.\<close>

fun occurs_before :: "(event \<Rightarrow> bool) \<Rightarrow> (event \<Rightarrow> bool) \<Rightarrow> event list \<Rightarrow> bool" where
  "occurs_before p q [] = False"
| "occurs_before p q (e # es) = ((p e \<and> list_ex q es) \<or> occurs_before p q es)"

text \<open>
  The process from \<^verbatim>\<open>Start\<close> to its exit on the stop signal: \<^verbatim>\<open>Start\<close> reaches
  \<^verbatim>\<open>sw.Wait()\<close>, the signal arrives, and \<^verbatim>\<open>TrapSignal\<close> runs the registered handler.
\<close>

definition Start_then_signal :: "Lib \<Rightarrow> Config \<Rightarrow> unit run" where
  "Start_then_signal lib SeedConfig = bind (Start lib SeedConfig) on_signal"

section \<open>A concrete library for closed examples\<close>

text \<open>
  Modelled from the spec: \<^verbatim>\<open>tmstrings.SplitAndTrim\<close> is not under src/. The spec reads the
  seed list as "a configuration-supplied comma-separated list of
  \<^verbatim>\<open>identity@host:port\<close> entries"; \<^verbatim>\<open>Start\<close> passes the separator \<^verbatim>\<open>","\<close> and the
  cutset \<^verbatim>\<open>" "\<close>. It instantiates the library in the closed examples only.
\<close>

fun split_at :: "char \<Rightarrow> string \<Rightarrow> string list" where
  "split_at sep [] = [[]]"
| "split_at sep (c # cs) =
     (if c = sep then [] # split_at sep cs
      else (case split_at sep cs of w # ws \<Rightarrow> (c # w) # ws | [] \<Rightarrow> [[c]]))"

definition trim_cutset :: "string \<Rightarrow> string \<Rightarrow> string" where
  "trim_cutset cutset s =
     rev (dropWhile (\<lambda>c. c \<in> set cutset) (rev (dropWhile (\<lambda>c. c \<in> set cutset) s)))"

definition split_and_trim :: "string \<Rightarrow> string \<Rightarrow> string \<Rightarrow> string list" where
  "split_and_trim s sep cutset =
     (case sep of
        [c] \<Rightarrow> map (trim_cutset cutset) (split_at c s)
      | _ \<Rightarrow> [trim_cutset cutset s])"

text \<open>
  An environment in which every call succeeds: \<^verbatim>\<open>ID\<close> is set, the other variables are
  not, and there is no address-book file yet. The path functions are simple stand-ins.
\<close>

definition example_lib :: Lib where
  "example_lib =
     \<lparr> Getenv = (\<lambda>k. if k = ''ID'' then ''phoenix-1'' else []),
       homedir_Dir = Inr ''/home/seed'',
       Join = (\<lambda>a b. a @ ''/'' @ b),
       Dir = (\<lambda>p. rev (tl (dropWhile (\<lambda>c. c \<noteq> CHR ''/'') (rev p)))),
       MkdirAll = (\<lambda>_. None),
       DefaultP2PConfig =
         \<lparr> AllowDuplicateIP = False, MaxNumInboundPeers = 40, MaxNumOutboundPeers = 10 \<rparr>,
       LoadOrGenNodeKey = (\<lambda>_. Inr (NodeKey ''secret'')),
       NodeKey_ID = (\<lambda>_. ''deadbeef''),
       P2PProtocol = 8,
       BlockProtocol = 11,
       PexChannel = 0,
       IDAddressString = (\<lambda>i a. i @ ''@'' @ a),
       NewNetAddressString = (\<lambda>s. Inr (NetAddress s)),
       Listen = (\<lambda>_. None),
       ReadFile = (\<lambda>_. Absent),
       SplitAndTrim = split_and_trim,
       Switch_Start = None,
       Switch_Stop = None \<rparr>"

definition example_config :: Config where
  "example_config =
     \<lparr> ListenAddress = ''tcp://0.0.0.0:36656'',
       ChainID = ''phoenix-1'',
       NodeKeyFile = ''/seed/config/node_key.json'',
       AddrBookFile = ''/seed/data/addrbook.json'',
       AddrBookStrict = False,
       MaxNumInboundPeers = 300,
       MaxNumOutboundPeers = 25,
       Seeds = ''a1@seed.one:26656, b2@seed.two:26656 '' \<rparr>"

definition example_book :: AddrBook where
  "example_book =
     \<lparr> filePath = ''/seed/data/addrbook.json'', routabilityStrict = False, addrs = [] \<rparr>"

definition example_nodeInfo :: DefaultNodeInfo where
  "example_nodeInfo =
     \<lparr> ProtocolVersion = \<lparr> P2P = 8, Block = 11, App = 0 \<rparr>,
       DefaultNodeID = ''deadbeef'',
       ListenAddr = ''tcp://0.0.0.0:36656'',
       Network = ''phoenix-1'',
       Version = ''0.5.9'',
       Channels = [0],
       Moniker = ''phoenix-1-seed'' \<rparr>"

definition example_p2p :: P2PConfig where
  "example_p2p =
     \<lparr> AllowDuplicateIP = True, MaxNumInboundPeers = 300, MaxNumOutboundPeers = 25 \<rparr>"

definition example_pex :: ReactorConfig where
  "example_pex = \<lparr> SeedMode = True, Seeds = [''a1@seed.one:26656'', ''b2@seed.two:26656''] \<rparr>"

definition example_handler_trace :: "event list" where
  "example_handler_trace = [EvLogInfo ''shutting down...'' [], EvBookSave example_book, EvSwStop]"

definition example_trace :: "event list" where
  "example_trace =
     [EvStart example_config,
      EvMkdirAll ''/seed/config'',
      EvMkdirAll ''/seed/data'',
      EvLoadOrGenNodeKey ''/seed/config/node_key.json'',
      EvLogInfo ''tenderseed''
        [(''key'', LStr ''deadbeef''),
         (''key path'', LStr ''/seed/config/node_key.json''),
         (''address book path'', LStr ''/seed/data/addrbook.json''),
         (''listen'', LStr ''tcp://0.0.0.0:36656''),
         (''chain'', LStr ''phoenix-1''),
         (''strict-routing'', LBool False),
         (''max-inbound'', LInt 300),
         (''max-outbound'', LInt 25)],
      EvNewNetAddressString ''deadbeef@tcp://0.0.0.0:36656'',
      EvNewMultiplexTransport example_nodeInfo (NodeKey ''secret'') example_p2p,
      EvListen (NetAddress ''deadbeef@tcp://0.0.0.0:36656''),
      EvNewAddrBook ''/seed/data/addrbook.json'' False,
      EvBookSetLogger ''book'',
      EvNewReactor example_book example_pex,
      EvReactorSetLogger ''pex'',
      EvNewSwitch example_p2p,
      EvSwSetLogger ''switch'',
      EvSwSetNodeKey (NodeKey ''secret''),
      EvSwSetAddrBook example_book,
      EvSwAddReactor ''pex'',
      EvSwSetNodeInfo example_nodeInfo,
      EvTrapSignal,
      EvSwStart,
      EvSwWait]"

definition example_node :: Node where
  "example_node =
     \<lparr> sw_config = example_p2p,
       sw_nodeInfo = example_nodeInfo,
       sw_nodeKey = NodeKey ''secret'',
       sw_book = example_book,
       pex_config = example_pex,
       listen_addr = NetAddress ''deadbeef@tcp://0.0.0.0:36656'',
       on_signal = (example_handler_trace, Inr ()) \<rparr>"

section \<open>Rules for runs\<close>

text \<open>A run with events put in front of its trace.\<close>

definition pre :: "event list \<Rightarrow> 'a run \<Rightarrow> 'a run" where
  "pre es m = (es @ fst m, snd m)"


lemma bind_emit: "bind (emit e) f = pre [e] (f ())"
  by (simp add: bind_def emit_def pre_def)

lemma bind_emits: "bind (emits es) f = pre es (f ())"
  by (simp add: bind_def emits_def pre_def)

lemma bind_do_or_panic:
  "bind (do_or_panic e r) f =
     (case r of Some err \<Rightarrow> ([e], Inl err) | None \<Rightarrow> pre [e] (f ()))"
  by (simp add: bind_def do_or_panic_def emit_def panic_def ret_def pre_def split: option.splits)

lemma bind_call_or_panic:
  "bind (call_or_panic e r) f =
     (case r of Inl err \<Rightarrow> ([e], Inl err) | Inr v \<Rightarrow> pre [e] (f v))"
  by (simp add: bind_def call_or_panic_def emit_def panic_def ret_def pre_def split: sum.splits)

lemma do_or_panic_eq:
  "do_or_panic e r = (case r of Some err \<Rightarrow> ([e], Inl err) | None \<Rightarrow> ([e], Inr ()))"
  by (simp add: bind_def do_or_panic_def emit_def panic_def ret_def split: option.splits)

lemma pre_pair: "pre es (t, r) = (es @ t, r)"
  by (simp add: pre_def)

lemma pre_option:
  "pre es (case r of None \<Rightarrow> a | Some y \<Rightarrow> b y) =
     (case r of None \<Rightarrow> pre es a | Some y \<Rightarrow> pre es (b y))"
  by (simp split: option.splits)

lemma pre_sum:
  "pre es (case r of Inl x \<Rightarrow> a x | Inr y \<Rightarrow> b y) =
     (case r of Inl x \<Rightarrow> pre es (a x) | Inr y \<Rightarrow> pre es (b y))"
  by (simp split: sum.splits)

lemmas run_simps =
  bind_emit bind_emits bind_do_or_panic bind_call_or_panic pre_pair pre_option pre_sum
  MkdirAllPanic_def ret_def panic_def trace_def panics_def Let_def

lemma shutdown_handler_eq:
  "shutdown_handler lib b =
     ([EvLogInfo ''shutting down...'' [], EvBookSave b, EvSwStop],
      case Switch_Stop lib of Some err \<Rightarrow> Inl err | None \<Rightarrow> Inr ())"
  by (simp add: shutdown_handler_def bind_emit do_or_panic_eq pre_pair split: option.splits)

text \<open>The example run, evaluated.\<close>

lemma example_dirs:
  "Dir example_lib ''/seed/config/node_key.json'' = ''/seed/config''"
  "Dir example_lib ''/seed/data/addrbook.json'' = ''/seed/data''"
  by (simp_all add: example_lib_def)

lemma example_seeds:
  "split_and_trim ''a1@seed.one:26656, b2@seed.two:26656 '' '','' '' '' =
     [''a1@seed.one:26656'', ''b2@seed.two:26656'']"
  by (simp add: split_and_trim_def trim_cutset_def)

lemma example_lib_simps:
  "Getenv example_lib k = (if k = ''ID'' then ''phoenix-1'' else [])"
  "homedir_Dir example_lib = Inr ''/home/seed''"
  "Join example_lib a b = a @ ''/'' @ b"
  "MkdirAll example_lib p = None"
  "DefaultP2PConfig example_lib =
     \<lparr> AllowDuplicateIP = False, MaxNumInboundPeers = 40, MaxNumOutboundPeers = 10 \<rparr>"
  "LoadOrGenNodeKey example_lib p = Inr (NodeKey ''secret'')"
  "NodeKey_ID example_lib k' = ''deadbeef''"
  "P2PProtocol example_lib = 8"
  "BlockProtocol example_lib = 11"
  "PexChannel example_lib = 0"
  "IDAddressString example_lib i a = i @ ''@'' @ a"
  "NewNetAddressString example_lib s = Inr (NetAddress s)"
  "Listen example_lib n = None"
  "ReadFile example_lib p = Absent"
  "SplitAndTrim example_lib = split_and_trim"
  "Switch_Start example_lib = None"
  "Switch_Stop example_lib = None"
  by (simp_all add: example_lib_def)

lemma example_config_simps:
  "ListenAddress example_config = ''tcp://0.0.0.0:36656''"
  "ChainID example_config = ''phoenix-1''"
  "NodeKeyFile example_config = ''/seed/config/node_key.json''"
  "AddrBookFile example_config = ''/seed/data/addrbook.json''"
  "AddrBookStrict example_config = False"
  "Config.MaxNumInboundPeers example_config = 300"
  "Config.MaxNumOutboundPeers example_config = 25"
  "Config.Seeds example_config = ''a1@seed.one:26656, b2@seed.two:26656 ''"
  by (simp_all add: example_config_def)

lemma Start_example: "Start example_lib example_config = (example_trace, Inr example_node)"
  by (simp add: Start_def run_simps example_lib_simps example_config_simps example_dirs
      shutdown_handler_eq NewAddrBook_def Load_def
      example_seeds example_trace_def example_node_def example_nodeInfo_def example_p2p_def
      example_pex_def example_book_def example_handler_trace_def)

lemma Start_then_signal_example:
  "Start_then_signal example_lib example_config = (example_trace @ example_handler_trace, Inr ())"
  by (simp add: Start_then_signal_def bind_def Start_example example_node_def)

section \<open>What \<^verbatim>\<open>Start\<close> hands to the library\<close>

lemma Start_EvStart: "EvStart c \<in> set (trace (Start lib SeedConfig)) \<longleftrightarrow> c = SeedConfig"
  by (auto simp: Start_def run_simps split: sum.splits option.splits)

lemma Start_Inr_book:
  "snd (Start lib SeedConfig) = Inr n \<Longrightarrow>
     sw_book n = NewAddrBook lib (AddrBookFile SeedConfig) (AddrBookStrict SeedConfig) \<and>
     on_signal n = shutdown_handler lib (sw_book n)"
  by (auto simp: Start_def run_simps split: sum.splits option.splits)

text \<open>
  C1, as amended. The handler registered by \<^verbatim>\<open>Start\<close> logs, then saves the address
  book, then stops the switch: the flush to persistent storage comes first and the switch
  (with its accept loop, crawl loop and connection workers) is stopped after it.
\<close>

theorem shutdown_flushes_then_stops:
  "snd (Start lib SeedConfig) = Inr n \<Longrightarrow>
     trace (on_signal n) = [EvLogInfo ''shutting down...'' [], EvBookSave (sw_book n), EvSwStop] \<and>
     occurs_before is_BookSave is_SwStop (trace (on_signal n)) \<and>
     \<not> occurs_before is_SwStop is_BookSave (trace (on_signal n))"
  by (simp add: Start_Inr_book shutdown_handler_eq trace_def)

theorem shutdown_flushes_then_stops_witness:
  "snd (Start example_lib example_config) = Inr example_node \<and>
   trace (on_signal example_node) =
     [EvLogInfo ''shutting down...'' [], EvBookSave (sw_book example_node), EvSwStop]"
proof -
  have run: "snd (Start example_lib example_config) = Inr example_node"
    by (simp add: Start_example)
  from shutdown_flushes_then_stops [OF run] run show ?thesis
    by blast
qed

text \<open>
  C1 as the spec states it fails: in the run of the example process up to its exit on the
  stop signal, no stop of the switch is followed by a save of the address book; the save
  precedes the stop.
\<close>

theorem shutdown_stop_then_flush_counterexample:
  "\<not> occurs_before is_SwStop is_BookSave (trace (Start_then_signal example_lib example_config)) \<and>
   occurs_before is_BookSave is_SwStop (trace (Start_then_signal example_lib example_config))"
  by (simp add: Start_then_signal_example trace_def example_trace_def example_handler_trace_def)

text \<open>
  C2. Whatever the configuration and whatever the library answers, every PEX reactor
  \<^verbatim>\<open>Start\<close> constructs is given \<^verbatim>\<open>SeedMode: true\<close>, and so is the reactor of the
  running node.
\<close>

theorem Start_reactor_seed_mode:
  "(EvNewReactor b rc \<in> set (trace (Start lib SeedConfig)) \<longrightarrow> SeedMode rc) \<and>
   (snd (Start lib SeedConfig) = Inr n \<longrightarrow> SeedMode (pex_config n))"
  by (auto simp: Start_def run_simps split: sum.splits option.splits)

theorem Start_reactor_seed_mode_witness:
  "EvNewReactor example_book example_pex \<in> set (trace (Start example_lib example_config)) \<and>
   SeedMode example_pex \<and> SeedMode (pex_config example_node)"
proof -
  have ev: "EvNewReactor example_book example_pex \<in> set (trace (Start example_lib example_config))"
    by (simp add: Start_example trace_def example_trace_def)
  have run: "snd (Start example_lib example_config) = Inr example_node"
    by (simp add: Start_example)
  from Start_reactor_seed_mode [of example_book example_pex example_lib example_config example_node]
    ev run show ?thesis by blast
qed

text \<open>
  C3. Every switch \<^verbatim>\<open>Start\<close> constructs receives a p2p configuration with
  \<^verbatim>\<open>AllowDuplicateIP\<close> set, whatever \<^verbatim>\<open>DefaultP2PConfig()\<close> returned for it.
\<close>

theorem Start_switch_allows_duplicate_ip:
  "(EvNewSwitch c \<in> set (trace (Start lib SeedConfig)) \<longrightarrow> AllowDuplicateIP c) \<and>
   (snd (Start lib SeedConfig) = Inr n \<longrightarrow> AllowDuplicateIP (sw_config n))"
  by (auto simp: Start_def run_simps split: sum.splits option.splits)

theorem Start_switch_allows_duplicate_ip_witness:
  "\<not> AllowDuplicateIP (DefaultP2PConfig example_lib) \<and>
   EvNewSwitch example_p2p \<in> set (trace (Start example_lib example_config)) \<and>
   AllowDuplicateIP example_p2p"
proof -
  have ev: "EvNewSwitch example_p2p \<in> set (trace (Start example_lib example_config))"
    by (simp add: Start_example trace_def example_trace_def)
  have dflt: "\<not> AllowDuplicateIP (DefaultP2PConfig example_lib)"
    by (simp add: example_lib_simps)
  from Start_switch_allows_duplicate_ip [of example_p2p example_lib example_config] ev dflt
  show ?thesis by blast
qed

text \<open>
  C4. \<^verbatim>\<open>Start\<close> constructs at most one address book, with the file and the
  \<^verbatim>\<open>AddrBookStrict\<close> value of its configuration; every book it later hands to the
  reactor, to the switch or to the shutdown handler carries that same routability mode.
\<close>

theorem Start_routability_fixed_at_construction:
  "length (filter is_NewAddrBook (trace (Start lib SeedConfig))) \<le> 1 \<and>
   (EvNewAddrBook p s \<in> set (trace (Start lib SeedConfig)) \<longrightarrow>
      p = AddrBookFile SeedConfig \<and> s = AddrBookStrict SeedConfig) \<and>
   (\<forall>e \<in> set (trace (Start lib SeedConfig)). \<forall>b \<in> set (books_of e).
      routabilityStrict b = AddrBookStrict SeedConfig) \<and>
   (snd (Start lib SeedConfig) = Inr n \<longrightarrow>
      routabilityStrict (sw_book n) = AddrBookStrict SeedConfig \<and>
      (\<forall>e \<in> set (trace (on_signal n)). \<forall>b \<in> set (books_of e).
         routabilityStrict b = AddrBookStrict SeedConfig))"
proof (intro conjI impI)
  show "length (filter is_NewAddrBook (trace (Start lib SeedConfig))) \<le> 1"
    by (auto simp: Start_def run_simps split: sum.splits option.splits)
next
  assume "EvNewAddrBook p s \<in> set (trace (Start lib SeedConfig))"
  then show "p = AddrBookFile SeedConfig" and "s = AddrBookStrict SeedConfig"
    by (auto simp: Start_def run_simps split: sum.splits option.splits)
next
  show "\<forall>e \<in> set (trace (Start lib SeedConfig)). \<forall>b \<in> set (books_of e).
      routabilityStrict b = AddrBookStrict SeedConfig"
    by (auto simp: Start_def run_simps NewAddrBook_def split: sum.splits option.splits)
next
  assume run: "snd (Start lib SeedConfig) = Inr n"
  from Start_Inr_book [OF run]
  show "routabilityStrict (sw_book n) = AddrBookStrict SeedConfig"
    by (simp add: NewAddrBook_def)
  from Start_Inr_book [OF run]
  show "\<forall>e \<in> set (trace (on_signal n)). \<forall>b \<in> set (books_of e).
         routabilityStrict b = AddrBookStrict SeedConfig"
    by (simp add: NewAddrBook_def shutdown_handler_eq trace_def)
qed

theorem Start_routability_fixed_at_construction_witness:
  "filter is_NewAddrBook (trace (Start example_lib example_config)) =
     [EvNewAddrBook (AddrBookFile example_config) (AddrBookStrict example_config)] \<and>
   EvSwSetAddrBook example_book \<in> set (trace (Start example_lib example_config)) \<and>
   routabilityStrict example_book = AddrBookStrict example_config \<and>
   routabilityStrict (sw_book example_node) = AddrBookStrict example_config"
proof -
  have one: "filter is_NewAddrBook (trace (Start example_lib example_config)) =
     [EvNewAddrBook (AddrBookFile example_config) (AddrBookStrict example_config)]"
    by (simp add: Start_example trace_def example_trace_def example_config_simps)
  have ev: "EvSwSetAddrBook example_book \<in> set (trace (Start example_lib example_config))"
    by (simp add: Start_example trace_def example_trace_def)
  have run: "snd (Start example_lib example_config) = Inr example_node"
    by (simp add: Start_example)
  have bk: "example_book \<in> set (books_of (EvSwSetAddrBook example_book))"
    by simp
  from Start_routability_fixed_at_construction
         [of example_lib example_config "AddrBookFile example_config"
             "AddrBookStrict example_config" example_node]
    one ev run bk show ?thesis by blast
qed

text \<open>
  C5. Every switch \<^verbatim>\<open>Start\<close> constructs receives the two ceilings of the configuration,
  each from its own field: the inbound maximum is \<^verbatim>\<open>MaxNumInboundPeers\<close> and the outbound
  maximum is \<^verbatim>\<open>MaxNumOutboundPeers\<close>, whatever \<^verbatim>\<open>DefaultP2PConfig()\<close> held.
\<close>

theorem Start_switch_peer_ceilings:
  "(EvNewSwitch c \<in> set (trace (Start lib SeedConfig)) \<longrightarrow>
      MaxNumInboundPeers c = Config.MaxNumInboundPeers SeedConfig \<and>
      MaxNumOutboundPeers c = Config.MaxNumOutboundPeers SeedConfig) \<and>
   (snd (Start lib SeedConfig) = Inr n \<longrightarrow>
      MaxNumInboundPeers (sw_config n) = Config.MaxNumInboundPeers SeedConfig \<and>
      MaxNumOutboundPeers (sw_config n) = Config.MaxNumOutboundPeers SeedConfig)"
  by (auto simp: Start_def run_simps split: sum.splits option.splits)

theorem Start_switch_peer_ceilings_witness:
  "EvNewSwitch example_p2p \<in> set (trace (Start example_lib example_config)) \<and>
   MaxNumInboundPeers example_p2p = 300 \<and> MaxNumOutboundPeers example_p2p = 25"
proof -
  have ev: "EvNewSwitch example_p2p \<in> set (trace (Start example_lib example_config))"
    by (simp add: Start_example trace_def example_trace_def)
  have cfg: "Config.MaxNumInboundPeers example_config = 300"
    "Config.MaxNumOutboundPeers example_config = 25"
    by (simp_all add: example_config_simps)
  from Start_switch_peer_ceilings [of example_p2p example_lib example_config] ev cfg
  show ?thesis by simp
qed

text \<open>
  C6. Every PEX reactor \<^verbatim>\<open>Start\<close> constructs receives, as its seed list, what
  \<^verbatim>\<open>SplitAndTrim\<close> returns for the configuration's \<^verbatim>\<open>Seeds\<close> string with the separator
  \<^verbatim>\<open>","\<close> and the cutset \<^verbatim>\<open>" "\<close>: the string is neither changed before the call nor is
  the list changed after it.
\<close>

theorem Start_reactor_seeds:
  "(EvNewReactor b rc \<in> set (trace (Start lib SeedConfig)) \<longrightarrow>
      Seeds rc = SplitAndTrim lib (Config.Seeds SeedConfig) '','' '' '') \<and>
   (snd (Start lib SeedConfig) = Inr n \<longrightarrow>
      Seeds (pex_config n) = SplitAndTrim lib (Config.Seeds SeedConfig) '','' '' '')"
  by (auto simp: Start_def run_simps split: sum.splits option.splits)

theorem Start_reactor_seeds_witness:
  "Config.Seeds example_config = ''a1@seed.one:26656, b2@seed.two:26656 '' \<and>
   EvNewReactor example_book example_pex \<in> set (trace (Start example_lib example_config)) \<and>
   Seeds example_pex = [''a1@seed.one:26656'', ''b2@seed.two:26656'']"
proof -
  have ev: "EvNewReactor example_book example_pex \<in> set (trace (Start example_lib example_config))"
    by (simp add: Start_example trace_def example_trace_def)
  have cfg: "Config.Seeds example_config = ''a1@seed.one:26656, b2@seed.two:26656 ''"
    by (simp add: example_config_simps)
  have lib: "SplitAndTrim example_lib ''a1@seed.one:26656, b2@seed.two:26656 '' '','' '' '' =
      [''a1@seed.one:26656'', ''b2@seed.two:26656'']"
    by (simp only: example_lib_simps example_seeds)
  from Start_reactor_seeds [of example_book example_pex example_lib example_config] ev cfg lib
  show ?thesis by simp
qed

text \<open>
  C7. If loading the node key fails, \<^verbatim>\<open>Start\<close> panics, and it never starts the switch;
  when the two directories could be created, the panic carries the loader's error and the
  failed load is the last thing \<^verbatim>\<open>Start\<close> did. If the key and the address are fine and
  binding the listen address fails, \<^verbatim>\<open>Start\<close> panics with the listener's error, and the
  failed \<^verbatim>\<open>Listen\<close> is the last thing it did.
\<close>

theorem Start_fatal_startup_failures:
  "(LoadOrGenNodeKey lib (NodeKeyFile SeedConfig) = Inl err \<longrightarrow>
      panics (Start lib SeedConfig) \<and> EvSwStart \<notin> set (trace (Start lib SeedConfig))) \<and>
   (MkdirAll lib (Dir lib (NodeKeyFile SeedConfig)) = None \<and>
    MkdirAll lib (Dir lib (AddrBookFile SeedConfig)) = None \<and>
    LoadOrGenNodeKey lib (NodeKeyFile SeedConfig) = Inl err \<longrightarrow>
      snd (Start lib SeedConfig) = Inl err \<and>
      last (trace (Start lib SeedConfig)) = EvLoadOrGenNodeKey (NodeKeyFile SeedConfig)) \<and>
   (MkdirAll lib (Dir lib (NodeKeyFile SeedConfig)) = None \<and>
    MkdirAll lib (Dir lib (AddrBookFile SeedConfig)) = None \<and>
    LoadOrGenNodeKey lib (NodeKeyFile SeedConfig) = Inr k \<and>
    NewNetAddressString lib
      (IDAddressString lib (NodeKey_ID lib k) (ListenAddress SeedConfig)) = Inr a \<and>
    Listen lib a = Some err \<longrightarrow>
      snd (Start lib SeedConfig) = Inl err \<and>
      last (trace (Start lib SeedConfig)) = EvListen a \<and>
      EvSwStart \<notin> set (trace (Start lib SeedConfig)))"
proof (intro conjI impI)
  assume "LoadOrGenNodeKey lib (NodeKeyFile SeedConfig) = Inl err"
  then show "panics (Start lib SeedConfig)"
    and "EvSwStart \<notin> set (trace (Start lib SeedConfig))"
    by (simp_all add: Start_def run_simps split: option.splits)
next
  assume "MkdirAll lib (Dir lib (NodeKeyFile SeedConfig)) = None \<and>
    MkdirAll lib (Dir lib (AddrBookFile SeedConfig)) = None \<and>
    LoadOrGenNodeKey lib (NodeKeyFile SeedConfig) = Inl err"
  then show "snd (Start lib SeedConfig) = Inl err"
    and "last (trace (Start lib SeedConfig)) = EvLoadOrGenNodeKey (NodeKeyFile SeedConfig)"
    by (simp_all add: Start_def run_simps)
next
  assume "MkdirAll lib (Dir lib (NodeKeyFile SeedConfig)) = None \<and>
    MkdirAll lib (Dir lib (AddrBookFile SeedConfig)) = None \<and>
    LoadOrGenNodeKey lib (NodeKeyFile SeedConfig) = Inr k \<and>
    NewNetAddressString lib
      (IDAddressString lib (NodeKey_ID lib k) (ListenAddress SeedConfig)) = Inr a \<and>
    Listen lib a = Some err"
  then show "snd (Start lib SeedConfig) = Inl err"
    and "last (trace (Start lib SeedConfig)) = EvListen a"
    and "EvSwStart \<notin> set (trace (Start lib SeedConfig))"
    by (simp_all add: Start_def run_simps)
qed

theorem Start_fatal_startup_failures_witness:
  "snd (Start (example_lib\<lparr>LoadOrGenNodeKey := \<lambda>p. Inl (Error ''unreadable node key'')\<rparr>)
         example_config) = Inl (Error ''unreadable node key'') \<and>
   snd (Start (example_lib\<lparr>Listen := \<lambda>a. Some (Error ''address already in use'')\<rparr>)
         example_config) = Inl (Error ''address already in use'')"
proof -
  let ?nokey = "example_lib\<lparr>LoadOrGenNodeKey := \<lambda>p. Inl (Error ''unreadable node key'')\<rparr>"
  let ?nobind = "example_lib\<lparr>Listen := \<lambda>a. Some (Error ''address already in use'')\<rparr>"
  have key: "MkdirAll ?nokey (Dir ?nokey (NodeKeyFile example_config)) = None \<and>
      MkdirAll ?nokey (Dir ?nokey (AddrBookFile example_config)) = None \<and>
      LoadOrGenNodeKey ?nokey (NodeKeyFile example_config) = Inl (Error ''unreadable node key'')"
    by (simp add: example_lib_def)
  have bind: "MkdirAll ?nobind (Dir ?nobind (NodeKeyFile example_config)) = None \<and>
      MkdirAll ?nobind (Dir ?nobind (AddrBookFile example_config)) = None \<and>
      LoadOrGenNodeKey ?nobind (NodeKeyFile example_config) = Inr (NodeKey ''secret'') \<and>
      NewNetAddressString ?nobind
        (IDAddressString ?nobind (NodeKey_ID ?nobind (NodeKey ''secret''))
           (ListenAddress example_config)) = Inr (NetAddress ''deadbeef@tcp://0.0.0.0:36656'') \<and>
      Listen ?nobind (NetAddress ''deadbeef@tcp://0.0.0.0:36656'') =
        Some (Error ''address already in use'')"
    by (simp add: example_lib_def example_config_simps)
  from Start_fatal_startup_failures
         [of ?nokey example_config "Error ''unreadable node key''"] key
  have one: "snd (Start ?nokey example_config) = Inl (Error ''unreadable node key'')"
    by blast
  from Start_fatal_startup_failures
         [of ?nobind example_config "Error ''address already in use''" "NodeKey ''secret''"
             "NetAddress ''deadbeef@tcp://0.0.0.0:36656''"] bind
  have two: "snd (Start ?nobind example_config) = Inl (Error ''address already in use'')"
    by blast
  from one two show ?thesis by simp
qed

text \<open>
  C8. The node info \<^verbatim>\<open>Start\<close> hands to the transport and to the switch lists exactly
  one channel, the PEX channel.
\<close>

theorem Start_node_info_channels:
  "(EvNewMultiplexTransport ni k c \<in> set (trace (Start lib SeedConfig)) \<longrightarrow>
      Channels ni = [PexChannel lib]) \<and>
   (EvSwSetNodeInfo ni \<in> set (trace (Start lib SeedConfig)) \<longrightarrow>
      Channels ni = [PexChannel lib]) \<and>
   (snd (Start lib SeedConfig) = Inr n \<longrightarrow> Channels (sw_nodeInfo n) = [PexChannel lib])"
  by (auto simp: Start_def run_simps split: sum.splits option.splits)

theorem Start_node_info_channels_witness:
  "EvNewMultiplexTransport example_nodeInfo (NodeKey ''secret'') example_p2p
     \<in> set (trace (Start example_lib example_config)) \<and>
   EvSwSetNodeInfo example_nodeInfo \<in> set (trace (Start example_lib example_config)) \<and>
   Channels example_nodeInfo = [PexChannel example_lib] \<and>
   length (Channels example_nodeInfo) = 1"
proof -
  have ev: "EvNewMultiplexTransport example_nodeInfo (NodeKey ''secret'') example_p2p
      \<in> set (trace (Start example_lib example_config))"
    "EvSwSetNodeInfo example_nodeInfo \<in> set (trace (Start example_lib example_config))"
    by (simp_all add: Start_example trace_def example_trace_def)
  from Start_node_info_channels
         [of example_nodeInfo "NodeKey ''secret''" example_p2p example_lib example_config] ev
  show ?thesis by simp
qed

text \<open>
  C9. Whatever the address-book file holds, \<^verbatim>\<open>Start\<close> panics with it exactly when it
  panics without it: the state of the file decides nothing. Once the book is constructed
  the run goes on to start the switch, and when the file is absent or corrupt the book
  handed to the reactor and kept by the running node is empty.
\<close>

theorem Start_addr_book_load_best_effort:
  "panics (Start (lib\<lparr>ReadFile := f\<rparr>) SeedConfig) = panics (Start lib SeedConfig) \<and>
   (EvNewAddrBook p s \<in> set (trace (Start lib SeedConfig)) \<longrightarrow>
      EvSwStart \<in> set (trace (Start lib SeedConfig))) \<and>
   (EvNewReactor b rc \<in> set (trace (Start lib SeedConfig)) \<and>
    (ReadFile lib (AddrBookFile SeedConfig) = Absent \<or>
     ReadFile lib (AddrBookFile SeedConfig) = Corrupt) \<longrightarrow> addrs b = []) \<and>
   (snd (Start lib SeedConfig) = Inr n \<and>
    (ReadFile lib (AddrBookFile SeedConfig) = Absent \<or>
     ReadFile lib (AddrBookFile SeedConfig) = Corrupt) \<longrightarrow> addrs (sw_book n) = [])"
proof (intro conjI impI)
  show "panics (Start (lib\<lparr>ReadFile := f\<rparr>) SeedConfig) = panics (Start lib SeedConfig)"
    by (simp add: Start_def run_simps split: sum.splits option.splits)
next
  assume "EvNewAddrBook p s \<in> set (trace (Start lib SeedConfig))"
  then show "EvSwStart \<in> set (trace (Start lib SeedConfig))"
    by (auto simp: Start_def run_simps split: sum.splits option.splits)
next
  assume "EvNewReactor b rc \<in> set (trace (Start lib SeedConfig)) \<and>
    (ReadFile lib (AddrBookFile SeedConfig) = Absent \<or>
     ReadFile lib (AddrBookFile SeedConfig) = Corrupt)"
  then show "addrs b = []"
    by (auto simp: Start_def run_simps NewAddrBook_def Load_def split: sum.splits option.splits)
next
  assume "snd (Start lib SeedConfig) = Inr n \<and>
    (ReadFile lib (AddrBookFile SeedConfig) = Absent \<or>
     ReadFile lib (AddrBookFile SeedConfig) = Corrupt)"
  then show "addrs (sw_book n) = []"
    by (auto simp: NewAddrBook_def Load_def dest!: Start_Inr_book)
qed

theorem Start_addr_book_load_best_effort_witness:
  "\<not> panics (Start example_lib example_config) \<and>
   \<not> panics (Start (example_lib\<lparr>ReadFile := \<lambda>p. Corrupt\<rparr>) example_config) \<and>
   \<not> panics (Start (example_lib\<lparr>ReadFile := \<lambda>p. Valid [''c3@seed.three:26656'']\<rparr>)
        example_config) \<and>
   (\<exists>n. snd (Start (example_lib\<lparr>ReadFile := \<lambda>p. Corrupt\<rparr>) example_config) = Inr n \<and>
        addrs (sw_book n) = [])"
proof -
  let ?corrupt = "example_lib\<lparr>ReadFile := \<lambda>p. Corrupt\<rparr>"
  let ?valid = "example_lib\<lparr>ReadFile := \<lambda>p. Valid [''c3@seed.three:26656'']\<rparr>"
  have absent: "\<not> panics (Start example_lib example_config)"
    by (simp add: Start_example panics_def)
  from Start_addr_book_load_best_effort
         [where lib = example_lib and f = "\<lambda>p. Corrupt" and SeedConfig = example_config] absent
  have corrupt: "\<not> panics (Start ?corrupt example_config)"
    by blast
  from Start_addr_book_load_best_effort
         [where lib = example_lib and f = "\<lambda>p. Valid [''c3@seed.three:26656'']"
            and SeedConfig = example_config] absent
  have valid: "\<not> panics (Start ?valid example_config)"
    by blast
  from corrupt obtain n where n: "snd (Start ?corrupt example_config) = Inr n"
    by (cases "snd (Start ?corrupt example_config)") (simp_all add: panics_def)
  have bf: "ReadFile ?corrupt (AddrBookFile example_config) = Corrupt"
    by simp
  from Start_addr_book_load_best_effort
         [where lib = ?corrupt and SeedConfig = example_config and n = n] n bf
  have "addrs (sw_book n) = []"
    by blast
  with absent corrupt valid n show ?thesis
    by blast
qed

section \<open>The configuration \<^verbatim>\<open>main\<close> passes to \<^verbatim>\<open>Start\<close>\<close>

lemma fst_pre: "fst (pre es m) = es @ fst m"
  by (simp add: pre_def)

lemma main_EvStart:
  "EvStart c \<in> set (trace (main lib)) \<longleftrightarrow>
     (\<exists>u. homedir_Dir lib = Inr u \<and>
          MkdirAll lib (Dir lib (Join lib (Join lib u ''.tinyseed'') ''config/config.toml'')) = None \<and>
          c = (DefaultConfig lib (Join lib u ''.tinyseed''))
                \<lparr> ListenAddress :=
                    (if Getenv lib ''LISTENADDRESS'' \<noteq> [] then Getenv lib ''LISTENADDRESS''
                     else ''tcp://0.0.0.0:36656''),
                  ChainID :=
                    (if Getenv lib ''ID'' \<noteq> [] then Getenv lib ''ID'' else ''columbus-5''),
                  Config.Seeds :=
                    (if Getenv lib ''SEEDS'' \<noteq> [] then Getenv lib ''SEEDS''
                     else Config.Seeds (DefaultConfig lib (Join lib u ''.tinyseed''))) \<rparr>)"
proof (cases "homedir_Dir lib")
  case (Inl err)
  then show ?thesis
    by (simp add: main_def panic_def trace_def)
next
  case (Inr u)
  show ?thesis
  proof (cases "MkdirAll lib (Dir lib (Join lib (Join lib u ''.tinyseed'') ''config/config.toml''))")
    case (Some err)
    with Inr show ?thesis
      by (simp add: main_def bind_do_or_panic MkdirAllPanic_def trace_def)
  next
    case None
    have "trace (main lib) =
        EvMkdirAll (Dir lib (Join lib (Join lib u ''.tinyseed'') ''config/config.toml'')) #
        trace (Start lib
          (let SeedConfig = DefaultConfig lib (Join lib u ''.tinyseed'');
               SeedConfig = (if Getenv lib ''ID'' \<noteq> []
                             then SeedConfig\<lparr>ChainID := Getenv lib ''ID''\<rparr> else SeedConfig);
               SeedConfig = (if Getenv lib ''SEEDS'' \<noteq> []
                             then SeedConfig\<lparr>Config.Seeds := Getenv lib ''SEEDS''\<rparr>
                             else SeedConfig);
               SeedConfig = (if Getenv lib ''LISTENADDRESS'' \<noteq> []
                             then SeedConfig\<lparr>ListenAddress := Getenv lib ''LISTENADDRESS''\<rparr>
                             else SeedConfig)
           in SeedConfig))"
      using Inr None
      by (simp add: main_def bind_do_or_panic MkdirAllPanic_def trace_def fst_pre Let_def)
    with Inr None show ?thesis
      by (simp add: Start_EvStart Let_def DefaultConfig_def)
  qed
qed

text \<open>
  C10. Every call of \<^verbatim>\<open>Start\<close> by \<^verbatim>\<open>main\<close> carries the default configuration with
  \<^verbatim>\<open>ChainID\<close>, \<^verbatim>\<open>Seeds\<close> and \<^verbatim>\<open>ListenAddress\<close> replaced by the environment variables
  \<^verbatim>\<open>ID\<close>, \<^verbatim>\<open>SEEDS\<close> and \<^verbatim>\<open>LISTENADDRESS\<close> where these are not empty, and by nothing
  else; \<^verbatim>\<open>main\<close> makes that call whenever the home directory is found and the
  configuration directory can be created.
\<close>

theorem main_configuration:
  "(EvStart c \<in> set (trace (main lib)) \<longrightarrow>
      ChainID c = (if Getenv lib ''ID'' \<noteq> [] then Getenv lib ''ID'' else ''columbus-5'') \<and>
      Config.Seeds c =
        (if Getenv lib ''SEEDS'' \<noteq> [] then Getenv lib ''SEEDS''
         else ''e999fc20aa5b87c1acef8677cf495ad85061cfb9@seed.terra.delightlabs.io:26656,6d8e943c049a80c161a889cb5fcf3d184215023e@public-seed2.terra.dev:26656,87048bf71526fb92d73733ba3ddb79b7a83ca11e@public-seed.terra.dev:26656'') \<and>
      ListenAddress c =
        (if Getenv lib ''LISTENADDRESS'' \<noteq> [] then Getenv lib ''LISTENADDRESS''
         else ''tcp://0.0.0.0:36656'') \<and>
      AddrBookStrict c \<and>
      Config.MaxNumInboundPeers c = 1000 \<and>
      Config.MaxNumOutboundPeers c = 1000 \<and>
      (\<exists>u. homedir_Dir lib = Inr u \<and>
           NodeKeyFile c = NodeKeyFile (DefaultConfig lib (Join lib u ''.tinyseed'')) \<and>
           AddrBookFile c = AddrBookFile (DefaultConfig lib (Join lib u ''.tinyseed'')))) \<and>
   (homedir_Dir lib = Inr u \<and>
    MkdirAll lib (Dir lib (Join lib (Join lib u ''.tinyseed'') ''config/config.toml'')) = None
      \<longrightarrow> (\<exists>c'. EvStart c' \<in> set (trace (main lib))))"
proof (intro conjI impI)
  assume "homedir_Dir lib = Inr u \<and>
    MkdirAll lib (Dir lib (Join lib (Join lib u ''.tinyseed'') ''config/config.toml'')) = None"
  then show "\<exists>c'. EvStart c' \<in> set (trace (main lib))"
    by (simp add: main_EvStart)
next
  assume "EvStart c \<in> set (trace (main lib))"
  then obtain u where u: "homedir_Dir lib = Inr u"
    and c: "c = (DefaultConfig lib (Join lib u ''.tinyseed''))
                \<lparr> ListenAddress :=
                    (if Getenv lib ''LISTENADDRESS'' \<noteq> [] then Getenv lib ''LISTENADDRESS''
                     else ''tcp://0.0.0.0:36656''),
                  ChainID :=
                    (if Getenv lib ''ID'' \<noteq> [] then Getenv lib ''ID'' else ''columbus-5''),
                  Config.Seeds :=
                    (if Getenv lib ''SEEDS'' \<noteq> [] then Getenv lib ''SEEDS''
                     else Config.Seeds (DefaultConfig lib (Join lib u ''.tinyseed''))) \<rparr>"
    unfolding main_EvStart by blast
  from c show "ChainID c = (if Getenv lib ''ID'' \<noteq> [] then Getenv lib ''ID'' else ''columbus-5'')"
    by simp
  from c show "Config.Seeds c =
        (if Getenv lib ''SEEDS'' \<noteq> [] then Getenv lib ''SEEDS''
         else ''e999fc20aa5b87c1acef8677cf495ad85061cfb9@seed.terra.delightlabs.io:26656,6d8e943c049a80c161a889cb5fcf3d184215023e@public-seed2.terra.dev:26656,87048bf71526fb92d73733ba3ddb79b7a83ca11e@public-seed.terra.dev:26656'')"
    by (simp add: DefaultConfig_def)
  from c show "ListenAddress c =
        (if Getenv lib ''LISTENADDRESS'' \<noteq> [] then Getenv lib ''LISTENADDRESS''
         else ''tcp://0.0.0.0:36656'')"
    by simp
  from c show "AddrBookStrict c"
    by (simp add: DefaultConfig_def)
  from c show "Config.MaxNumInboundPeers c = 1000"
    by (simp add: DefaultConfig_def)
  from c show "Config.MaxNumOutboundPeers c = 1000"
    by (simp add: DefaultConfig_def)
  from u c show "\<exists>u. homedir_Dir lib = Inr u \<and>
           NodeKeyFile c = NodeKeyFile (DefaultConfig lib (Join lib u ''.tinyseed'')) \<and>
           AddrBookFile c = AddrBookFile (DefaultConfig lib (Join lib u ''.tinyseed''))"
    by simp
qed

theorem main_configuration_witness:
  "Getenv example_lib ''ID'' = ''phoenix-1'' \<and>
   Getenv example_lib ''SEEDS'' = [] \<and>
   Getenv example_lib ''LISTENADDRESS'' = [] \<and>
   (\<exists>c. EvStart c \<in> set (trace (main example_lib)) \<and>
        ChainID c = ''phoenix-1'' \<and>
        split_and_trim (Config.Seeds c) '','' '' '' =
          [''e999fc20aa5b87c1acef8677cf495ad85061cfb9@seed.terra.delightlabs.io:26656'',
           ''6d8e943c049a80c161a889cb5fcf3d184215023e@public-seed2.terra.dev:26656'',
           ''87048bf71526fb92d73733ba3ddb79b7a83ca11e@public-seed.terra.dev:26656''] \<and>
        ListenAddress c = ''tcp://0.0.0.0:36656'' \<and>
        AddrBookStrict c \<and>
        Config.MaxNumInboundPeers c = 1000 \<and>
        Config.MaxNumOutboundPeers c = 1000 \<and>
        NodeKeyFile c = ''/home/seed/.tinyseed/config/node_key.json'' \<and>
        AddrBookFile c = ''/home/seed/.tinyseed/data/addrbook.json'')"
proof -
  have env: "Getenv example_lib ''ID'' = ''phoenix-1''" "Getenv example_lib ''SEEDS'' = []"
    "Getenv example_lib ''LISTENADDRESS'' = []"
    by (simp_all add: example_lib_simps)
  have home: "homedir_Dir example_lib = Inr ''/home/seed'' \<and>
      MkdirAll example_lib
        (Dir example_lib
          (Join example_lib (Join example_lib ''/home/seed'' ''.tinyseed'')
             ''config/config.toml'')) = None"
    by (simp add: example_lib_simps)
  from main_configuration [of _ example_lib "''/home/seed''"] home
  obtain c where ev: "EvStart c \<in> set (trace (main example_lib))"
    by blast
  from main_configuration [of c example_lib] ev env
  have fields: "ChainID c = ''phoenix-1''"
    "Config.Seeds c = ''e999fc20aa5b87c1acef8677cf495ad85061cfb9@seed.terra.delightlabs.io:26656,6d8e943c049a80c161a889cb5fcf3d184215023e@public-seed2.terra.dev:26656,87048bf71526fb92d73733ba3ddb79b7a83ca11e@public-seed.terra.dev:26656''"
    "ListenAddress c = ''tcp://0.0.0.0:36656''"
    "AddrBookStrict c"
    "Config.MaxNumInboundPeers c = 1000"
    "Config.MaxNumOutboundPeers c = 1000"
    "NodeKeyFile c = ''/home/seed/.tinyseed/config/node_key.json''"
    "AddrBookFile c = ''/home/seed/.tinyseed/data/addrbook.json''"
    by (simp_all add: example_lib_simps DefaultConfig_def)
  have seeds: "split_and_trim (Config.Seeds c) '','' '' '' =
          [''e999fc20aa5b87c1acef8677cf495ad85061cfb9@seed.terra.delightlabs.io:26656'',
           ''6d8e943c049a80c161a889cb5fcf3d184215023e@public-seed2.terra.dev:26656'',
           ''87048bf71526fb92d73733ba3ddb79b7a83ca11e@public-seed.terra.dev:26656'']"
    unfolding fields by (simp add: split_and_trim_def trim_cutset_def)
  from env ev fields seeds show ?thesis
    by blast
qed

end
